theory Spec2Isabelle
  imports Main "HOL-Library.Sublist" "HOL-Library.AList"
begin

section \<open>JavaScript values\<close>

text \<open>
  The device model of \<^verbatim>\<open>lib/models/device.js\<close> handles plain JavaScript values: the
  identifiers, the pine option objects, the request objects and the entities the backend
  answers with. Numbers are the integers (ids, status codes, millisecond timestamps) and
  \<^verbatim>\<open>NaN\<close>; objects are association lists in the order of the object literal of the source.
\<close>

datatype jsval =
    Undefined
  | Null
  | Bool bool
  | Num int
  | NaN
  | Str string
  | Arr "jsval list"
  | Obj "(string \<times> jsval) list"

text \<open>\<^verbatim>\<open>v == null\<close>: true of \<^verbatim>\<open>null\<close> and \<^verbatim>\<open>undefined\<close> only.\<close>

fun is_nullish :: "jsval \<Rightarrow> bool" where
  "is_nullish Undefined = True"
| "is_nullish Null = True"
| "is_nullish _ = False"

text \<open>
  \<^verbatim>\<open>Boolean(v)\<close>: the falsy values are \<^verbatim>\<open>undefined\<close>, \<^verbatim>\<open>null\<close>, \<^verbatim>\<open>false\<close>, \<^verbatim>\<open>0\<close>, \<^verbatim>\<open>NaN\<close>
  and \<^verbatim>\<open>''\<close>.
\<close>

fun Boolean :: "jsval \<Rightarrow> bool" where
  "Boolean Undefined = False"
| "Boolean Null = False"
| "Boolean (Bool b) = b"
| "Boolean (Num n) = (n \<noteq> 0)"
| "Boolean NaN = False"
| "Boolean (Str s) = (s \<noteq> [])"
| "Boolean (Arr _) = True"
| "Boolean (Obj _) = True"

fun string_of_nat :: "nat \<Rightarrow> string" where
  "string_of_nat n =
     (if n < 10 then [''0123456789'' ! n]
      else string_of_nat (n div 10) @ [''0123456789'' ! (n mod 10)])"

declare string_of_nat.simps [simp del]

definition string_of_int :: "int \<Rightarrow> string" where
  "string_of_int i = (if i < 0 then ''-'' @ string_of_nat (nat (- i)) else string_of_nat (nat i))"

fun join :: "string \<Rightarrow> string list \<Rightarrow> string" where
  "join sep [] = []"
| "join sep [x] = x"
| "join sep (x # y # ys) = x @ sep @ join sep (y # ys)"

text \<open>
  \<^verbatim>\<open>String(v)\<close>, which is also what a template literal \<^verbatim>\<open>`${v}`\<close> puts in the text: a
  string is itself, an integer is its decimal numeral (as JavaScript prints the integers
  it represents exactly, up to 2 to the power 53), an array is its elements joined by commas
  (\<^verbatim>\<open>null\<close> and \<^verbatim>\<open>undefined\<close> elements empty), a plain object is \<^verbatim>\<open>[object Object]\<close>.
\<close>

fun String :: "jsval \<Rightarrow> string" where
  "String Undefined = ''undefined''"
| "String Null = ''null''"
| "String (Bool b) = (if b then ''true'' else ''false'')"
| "String (Num n) = string_of_int n"
| "String NaN = ''NaN''"
| "String (Str s) = s"
| "String (Arr xs) = join '','' (map (\<lambda>x. if is_nullish x then [] else String x) xs)"
| "String (Obj kvs) = ''[object Object]''"

section \<open>Errors\<close>

text \<open>
  A failure of the backend (the pine client or the request layer) is an error object of
  their own: its \<^verbatim>\<open>code\<close> and its \<^verbatim>\<open>statusCode\<close> property (\<^verbatim>\<open>undefined\<close> when the error
  has none).
\<close>

record ext_error =
  code :: string
  status :: jsval

datatype error =
    BalenaDeviceNotFound jsval
  | BalenaAmbiguousDevice jsval
  | BalenaSupervisorLockedError
  | BalenaInvalidParameterError string jsval
  | Error string
  | TypeError
  | External ext_error

text \<open>\<^verbatim>\<open>err.statusCode\<close>: only the errors of the backend carry one.\<close>

fun statusCode :: "error \<Rightarrow> jsval" where
  "statusCode (External e) = status e"
| "statusCode _ = Undefined"

text \<open>
  \<^verbatim>\<open>v[key]\<close> and Bluebird's \<^verbatim>\<open>.get(key)\<close>: a TypeError on \<^verbatim>\<open>null\<close> and \<^verbatim>\<open>undefined\<close>, the
  property of an object (\<^verbatim>\<open>undefined\<close> when it has none), the length of a string or an array.
  The source compares the length of a string with zero only, so that the unit it is
  counted in does not matter.
\<close>

fun js_prop :: "jsval \<Rightarrow> string \<Rightarrow> error + jsval" where
  "js_prop Undefined k = Inl TypeError"
| "js_prop Null k = Inl TypeError"
| "js_prop (Obj kvs) k = Inr (case map_of kvs k of None \<Rightarrow> Undefined | Some v \<Rightarrow> v)"
| "js_prop (Arr xs) k = Inr (if k = ''length'' then Num (int (length xs)) else Undefined)"
| "js_prop (Str s) k = Inr (if k = ''length'' then Num (int (length s)) else Undefined)"
| "js_prop _ k = Inr Undefined"

text \<open>\<^verbatim>\<open>v[0]\<close>: the first element of an array, \<^verbatim>\<open>undefined\<close> when there is none.\<close>

fun js_index0 :: "jsval \<Rightarrow> error + jsval" where
  "js_index0 Undefined = Inl TypeError"
| "js_index0 Null = Inl TypeError"
| "js_index0 (Arr xs) = Inr (case xs of [] \<Rightarrow> Undefined | x # _ \<Rightarrow> x)"
| "js_index0 (Str s) = Inr (case s of [] \<Rightarrow> Undefined | c # _ \<Rightarrow> Str [c])"
| "js_index0 (Obj kvs) = Inr (case map_of kvs ''0'' of None \<Rightarrow> Undefined | Some v \<Rightarrow> v)"
| "js_index0 _ = Inr Undefined"

section \<open>The backend and the promises\<close>

text \<open>
  Every call the model makes on its collaborators is recorded, with the object it was given.
\<close>

datatype call =
    PineGet jsval
  | PinePatch jsval
  | PineDelete jsval
  | RequestSend jsval

text \<open>
  What \<^verbatim>\<open>getDeviceModel(deps, opts)\<close> closes over. The collaborators \<^verbatim>\<open>deps\<close> (the pine
  client and the request layer) answer a call from the calls made so far and the object
  given; \<^verbatim>\<open>pine.get\<close> resolves with one entity (or \<^verbatim>\<open>undefined\<close>) when the object has an
  \<^verbatim>\<open>id\<close> and with an array of entities otherwise, which are the fields
  \<open>pine_get_id\<close> and \<open>pine_get\<close>. \<^verbatim>\<open>opts\<close> gives \<open>apiUrl\<close> and \<open>dashboardUrl\<close>. The rest
  are the imports of the module that are not part of these sources: helpers of
  \<^verbatim>\<open>../util\<close>, \<^verbatim>\<open>semver.lt\<close> and \<^verbatim>\<open>url.resolve\<close>.
\<close>

record env =
  pine_get_id :: "call list \<Rightarrow> jsval \<Rightarrow> ext_error + jsval"
  pine_get :: "call list \<Rightarrow> jsval \<Rightarrow> ext_error + jsval list"
  pine_patch :: "call list \<Rightarrow> jsval \<Rightarrow> ext_error + jsval"
  pine_delete :: "call list \<Rightarrow> jsval \<Rightarrow> ext_error + jsval"
  request_send :: "call list \<Rightarrow> jsval \<Rightarrow> ext_error + jsval"
  apiUrl :: string
  dashboardUrl :: "string option"
  mergeExpandOptions :: "jsval \<Rightarrow> jsval \<Rightarrow> error + jsval"
  normalizeDeviceOsVersion :: "jsval \<Rightarrow> jsval"
  isNotFoundResponse :: "error \<Rightarrow> bool"
  treatAsMissingDevice :: "jsval \<Rightarrow> error \<Rightarrow> error + jsval"
  LOCKED_STATUS_CODE :: int
  semver_lt :: "jsval \<Rightarrow> string \<Rightarrow> error + bool"
  url_resolve :: "string \<Rightarrow> string \<Rightarrow> string"

text \<open>
  A promise is run from the calls made so far: it settles with an error (rejected) or a
  value (resolved), and gives the calls made by then. The methods are used in the promise
  style, without the trailing callback (\<^verbatim>\<open>asCallback(undefined)\<close> is the promise itself).
\<close>

type_synonym 'a promise = "call list \<Rightarrow> (error + 'a) \<times> call list"

definition resolve :: "'a \<Rightarrow> 'a promise" where
  "resolve x = (\<lambda>t. (Inr x, t))"

definition reject :: "error \<Rightarrow> 'a promise" where
  "reject e = (\<lambda>t. (Inl e, t))"

text \<open>\<^verbatim>\<open>Promise.try\<close> of a function that returns or throws.\<close>

definition Promise_try :: "error + 'a \<Rightarrow> 'a promise" where
  "Promise_try r = (\<lambda>t. (r, t))"

text \<open>\<^verbatim>\<open>p.then(f)\<close>, where \<^verbatim>\<open>f\<close> returns a promise.\<close>

definition then_p :: "'a promise \<Rightarrow> ('a \<Rightarrow> 'b promise) \<Rightarrow> 'b promise" where
  "then_p p f = (\<lambda>t. case p t of (Inl e, t') \<Rightarrow> (Inl e, t') | (Inr x, t') \<Rightarrow> f x t')"

text \<open>\<^verbatim>\<open>p.then(f)\<close>, where \<^verbatim>\<open>f\<close> returns a value or throws.\<close>

definition then_v :: "'a promise \<Rightarrow> ('a \<Rightarrow> error + 'b) \<Rightarrow> 'b promise" where
  "then_v p f = then_p p (\<lambda>x. Promise_try (f x))"

text \<open>\<^verbatim>\<open>p.tap(f)\<close>: the value of \<^verbatim>\<open>p\<close> unless \<^verbatim>\<open>f\<close> throws.\<close>

definition tap :: "'a promise \<Rightarrow> ('a \<Rightarrow> error + unit) \<Rightarrow> 'a promise" where
  "tap p f = then_v p (\<lambda>x. case f x of Inl e \<Rightarrow> Inl e | Inr _ \<Rightarrow> Inr x)"

text \<open>\<^verbatim>\<open>p.catch(f)\<close>, and \<^verbatim>\<open>p.catch(pred, f)\<close> which handles the errors \<^verbatim>\<open>pred\<close> holds of.\<close>

definition catch_p :: "'a promise \<Rightarrow> (error \<Rightarrow> 'a promise) \<Rightarrow> 'a promise" where
  "catch_p p h = (\<lambda>t. case p t of (Inl e, t') \<Rightarrow> h e t' | (Inr x, t') \<Rightarrow> (Inr x, t'))"

definition catch_if :: "'a promise \<Rightarrow> (error \<Rightarrow> bool) \<Rightarrow> (error \<Rightarrow> 'a promise) \<Rightarrow> 'a promise" where
  "catch_if p pred h = catch_p p (\<lambda>e. if pred e then h e else reject e)"

text \<open>The calls on the collaborators: the answer, and the call added to the record.\<close>

definition backend ::
  "(call list \<Rightarrow> jsval \<Rightarrow> ext_error + 'a) \<Rightarrow> (jsval \<Rightarrow> call) \<Rightarrow> jsval \<Rightarrow> 'a promise" where
  "backend answer kind params =
     (\<lambda>t. (case answer t params of Inl e \<Rightarrow> Inl (External e) | Inr x \<Rightarrow> Inr x,
           t @ [kind params]))"


section \<open>The device model\<close>

text \<open>
  Statements in sequence inside one function body: the first that throws ends the body.
\<close>

definition and_then :: "error + 'a \<Rightarrow> ('a \<Rightarrow> error + 'b) \<Rightarrow> error + 'b" where
  "and_then r f = (case r of Inl e \<Rightarrow> Inl e | Inr x \<Rightarrow> f x)"

text \<open>\<^verbatim>\<open>v?.key\<close>\<close>

definition js_prop_opt :: "jsval \<Rightarrow> string \<Rightarrow> error + jsval" where
  "js_prop_opt v k = (if is_nullish v then Inr Undefined else js_prop v k)"

fun typeof :: "jsval \<Rightarrow> string" where
  "typeof Undefined = ''undefined''"
| "typeof Null = ''object''"
| "typeof (Bool b) = ''boolean''"
| "typeof (Num n) = ''number''"
| "typeof NaN = ''number''"
| "typeof (Str s) = ''string''"
| "typeof (Arr xs) = ''object''"
| "typeof (Obj kvs) = ''object''"

text \<open>\<^verbatim>\<open>s.replace(/pat/, rep)\<close> for a literal pattern: the first occurrence is replaced.\<close>

fun replace_first :: "string \<Rightarrow> string \<Rightarrow> string \<Rightarrow> string" where
  "replace_first pat rep [] = (if pat = [] then rep else [])"
| "replace_first pat rep (c # cs) =
     (if prefix pat (c # cs) then rep @ drop (length pat) (c # cs)
      else c # replace_first pat rep cs)"

text \<open>
  Modelled from the spec: \<^verbatim>\<open>isId\<close> is imported from \<^verbatim>\<open>../util\<close>, which is not part of
  the sources. The identifiers are "uuid vs numeric id", a device uuid (string) or id
  (number): \<^verbatim>\<open>isId\<close> holds of the values of type number.
\<close>

fun isId :: "jsval \<Rightarrow> bool" where
  "isId (Num n) = True"
| "isId NaN = True"
| "isId _ = False"

text \<open>\<^verbatim>\<open>Array.isArray(v)\<close>\<close>

fun isArray :: "jsval \<Rightarrow> bool" where
  "isArray (Arr xs) = True"
| "isArray _ = False"

text \<open>
  \<^verbatim>\<open>Object.keys(v)\<close>: the keys of an object in the order of the list (JavaScript puts the
  keys that are array indices first; pine options have none), the indices of an array or
  of a string, and no key for the other values.
\<close>

fun own_keys :: "jsval \<Rightarrow> string list" where
  "own_keys (Obj kvs) = map fst kvs"
| "own_keys (Arr xs) = map string_of_nat [0..<length xs]"
| "own_keys (Str s) = map string_of_nat [0..<length s]"
| "own_keys _ = []"

text \<open>\<^verbatim>\<open>o.key\<close> for an object literal \<^verbatim>\<open>o\<close> given by its fields.\<close>

definition field :: "(string \<times> jsval) list \<Rightarrow> string \<Rightarrow> jsval" where
  "field kvs k = (case map_of kvs k of None \<Rightarrow> Undefined | Some v \<Rightarrow> v)"

text \<open>
  Modelled from the spec: \<^verbatim>\<open>mergePineOptions\<close> is imported from \<^verbatim>\<open>../util\<close>, which is not
  part of the sources. It merges the caller's pine options into the defaults, which the
  source always gives as an object literal (here its fields). Without extra options (a
  falsy value) it returns the defaults. Otherwise it starts from a copy of the defaults
  and takes the caller's options one by one, in the order of the caller's object:
  a \<^verbatim>\<open>$select\<close> is stored as an array, \<^verbatim>\<open>$orderby\<close>, \<^verbatim>\<open>$top\<close> and \<^verbatim>\<open>$skip\<close> replace the default,
  a \<^verbatim>\<open>$filter\<close> is joined to the filter of the defaults by \<^verbatim>\<open>$and\<close>, an \<^verbatim>\<open>$expand\<close> replaces
  an absent default and is merged with a present one (by \<^verbatim>\<open>mergeExpandOptions\<close>, a
  parameter), and any other key makes it throw \<^verbatim>\<open>Unknown pine option\<close>.
  \<open>merged_option\<close> is the value that the \<^verbatim>\<open>switch\<close> stores for one option.
\<close>

definition merged_option :: "env \<Rightarrow> (string \<times> jsval) list \<Rightarrow> string \<Rightarrow> jsval \<Rightarrow> error + jsval" where
  "merged_option env defaults option value =
     (if option = ''$select'' then
        Inr (if \<not> is_nullish value \<and> \<not> isArray value then Arr [value] else value)
      else if option = ''$orderby'' \<or> option = ''$top'' \<or> option = ''$skip'' then Inr value
      else if option = ''$filter'' then
        (if Boolean (field defaults ''$filter'')
         then Inr (Obj [(''$and'', Arr [field defaults ''$filter'', value])])
         else Inr value)
      else if option = ''$expand'' then
        (if is_nullish (field defaults ''$expand'') then Inr value
         else mergeExpandOptions env (field defaults ''$expand'') value)
      else Inl (Error (''Unknown pine option: '' @ option)))"

text \<open>The loop over the caller's keys: \<^verbatim>\<open>result[option] = ...\<close> for each of them.\<close>

fun merge_options ::
  "env \<Rightarrow> (string \<times> jsval) list \<Rightarrow> jsval \<Rightarrow> string list \<Rightarrow> (string \<times> jsval) list
     \<Rightarrow> error + (string \<times> jsval) list" where
  "merge_options env defaults extras [] result = Inr result"
| "merge_options env defaults extras (option # rest) result =
     and_then (js_prop extras option) (\<lambda>value.
     and_then (merged_option env defaults option value) (\<lambda>merged.
       merge_options env defaults extras rest (AList.update option merged result)))"

definition mergePineOptions :: "env \<Rightarrow> (string \<times> jsval) list \<Rightarrow> jsval \<Rightarrow> error + jsval" where
  "mergePineOptions env defaults extras =
     (if \<not> Boolean extras then Inr (Obj defaults)
      else and_then (merge_options env defaults extras (own_keys extras) defaults)
             (\<lambda>result. Inr (Obj result)))"

text \<open>
  \<^verbatim>\<open>addExtraInfo\<close> calls \<^verbatim>\<open>normalizeDeviceOsVersion\<close> on the device, which changes it in
  place, and returns the device: the parameter gives the device as it is after the call.
\<close>

definition addExtraInfo :: "env \<Rightarrow> jsval \<Rightarrow> jsval" where
  "addExtraInfo env device = normalizeDeviceOsVersion env device"

definition get :: "env \<Rightarrow> jsval \<Rightarrow> jsval \<Rightarrow> jsval promise" where
  "get env uuidOrId options0 =
     (let options = (if is_nullish options0 then Obj [] else options0) in
      then_p
        (if is_nullish uuidOrId then reject (BalenaDeviceNotFound uuidOrId)
         else if isId uuidOrId then
           tap (backend (pine_get_id env) PineGet
                  (Obj [(''resource'', Str ''device''), (''id'', uuidOrId), (''options'', options)]))
               (\<lambda>device. if is_nullish device then Inl (BalenaDeviceNotFound uuidOrId) else Inr ())
         else
           then_v
             (tap (then_p
                     (Promise_try
                        (mergePineOptions env
                           [(''$filter'', Obj [(''uuid'', Obj [(''$startswith'', uuidOrId)])])]
                           options))
                     (\<lambda>merged.
                        backend (pine_get env) PineGet
                          (Obj [(''resource'', Str ''device''), (''options'', merged)])))
                  (\<lambda>devices.
                     if length devices = 0 then Inl (BalenaDeviceNotFound uuidOrId)
                     else if length devices > 1 then Inl (BalenaAmbiguousDevice uuidOrId)
                     else Inr ()))
             (\<lambda>devices. js_index0 (Arr devices)))
        (\<lambda>device. resolve (addExtraInfo env device)))"

definition MIN_SUPERVISOR_APPS_API :: string where
  "MIN_SUPERVISOR_APPS_API = ''1.8.0-alpha.0''"

definition MIN_SUPERVISOR_MC_API :: string where
  "MIN_SUPERVISOR_MC_API = ''7.0.0''"

definition CONTAINER_ACTION_ENDPOINT_TIMEOUT :: int where
  "CONTAINER_ACTION_ENDPOINT_TIMEOUT = 50000"

text \<open>\<^verbatim>\<open>dashboardUrl\<close> after it has been inferred from \<^verbatim>\<open>apiUrl\<close> when it was not given.\<close>

definition the_dashboardUrl :: "env \<Rightarrow> string" where
  "the_dashboardUrl env =
     (case dashboardUrl env of
        None \<Rightarrow> replace_first ''api'' ''dashboard'' (apiUrl env)
      | Some d \<Rightarrow> d)"

definition getId :: "env \<Rightarrow> jsval \<Rightarrow> jsval promise" where
  "getId env uuidOrId =
     (if isId uuidOrId then resolve uuidOrId
      else then_v (get env uuidOrId (Obj [(''$select'', Str ''id'')])) (\<lambda>device. js_prop device ''id''))"

definition ensureSupervisorCompatibility :: "env \<Rightarrow> jsval \<Rightarrow> string \<Rightarrow> error + unit" where
  "ensureSupervisorCompatibility env version minVersion =
     and_then (semver_lt env version minVersion)
       (\<lambda>lt. if lt
              then Inl (Error (''Incompatible supervisor version: '' @ String version
                                 @ '' - must be >= '' @ minVersion))
              else Inr ())"

definition getDashboardUrl :: "env \<Rightarrow> jsval \<Rightarrow> error + string" where
  "getDashboardUrl env uuid =
     (if typeof uuid \<noteq> ''string'' \<or> js_prop uuid ''length'' = Inr (Num 0)
      then Inl (Error ''The uuid option should be a non empty string'')
      else Inr (url_resolve env (the_dashboardUrl env) (''/devices/'' @ String uuid @ ''/summary'')))"


definition getName :: "env \<Rightarrow> jsval \<Rightarrow> jsval promise" where
  "getName env uuidOrId =
     then_v (get env uuidOrId (Obj [(''$select'', Str ''device_name'')]))
       (\<lambda>device. js_prop device ''device_name'')"

definition has :: "env \<Rightarrow> jsval \<Rightarrow> jsval promise" where
  "has env uuidOrId =
     catch_p
       (then_v (get env uuidOrId (Obj [(''$select'', Arr [Str ''id''])])) (\<lambda>_. Inr (Bool True)))
       (\<lambda>e. case e of BalenaDeviceNotFound _ \<Rightarrow> resolve (Bool False) | _ \<Rightarrow> reject e)"

definition isOnline :: "env \<Rightarrow> jsval \<Rightarrow> jsval promise" where
  "isOnline env uuidOrId =
     then_v (get env uuidOrId (Obj [(''$select'', Str ''is_online'')]))
       (\<lambda>device. js_prop device ''is_online'')"

definition remove :: "env \<Rightarrow> jsval \<Rightarrow> jsval promise" where
  "remove env uuidOrId =
     then_p (get env uuidOrId (Obj [(''$select'', Str ''uuid'')]))
       (\<lambda>device.
          then_p (Promise_try (js_prop device ''uuid''))
            (\<lambda>uuid. backend (pine_delete env) PineDelete
               (Obj [(''resource'', Str ''device''),
                     (''options'', Obj [(''$filter'', Obj [(''uuid'', uuid)])])])))"

definition rename :: "env \<Rightarrow> jsval \<Rightarrow> jsval \<Rightarrow> jsval promise" where
  "rename env uuidOrId newName =
     then_p (get env uuidOrId (Obj [(''$select'', Str ''uuid'')]))
       (\<lambda>device.
          then_p (Promise_try (js_prop device ''uuid''))
            (\<lambda>uuid. backend (pine_patch env) PinePatch
               (Obj [(''resource'', Str ''device''),
                     (''body'', Obj [(''device_name'', newName)]),
                     (''options'', Obj [(''$filter'', Obj [(''uuid'', uuid)])])])))"

definition setCustomLocation :: "env \<Rightarrow> jsval \<Rightarrow> jsval \<Rightarrow> jsval promise" where
  "setCustomLocation env uuidOrId location =
     then_p (get env uuidOrId (Obj [(''$select'', Str ''uuid'')]))
       (\<lambda>device.
          then_p
            (Promise_try
               (and_then (js_prop device ''uuid'') (\<lambda>uuid.
                and_then (js_prop location ''latitude'') (\<lambda>latitude.
                and_then (js_prop location ''longitude'') (\<lambda>longitude.
                  Inr (Obj [(''resource'', Str ''device''),
                            (''body'', Obj [(''custom_latitude'', Str (String latitude)),
                                            (''custom_longitude'', Str (String longitude))]),
                            (''options'', Obj [(''$filter'', Obj [(''uuid'', uuid)])])]))))))
            (backend (pine_patch env) PinePatch))"

definition unsetCustomLocation :: "env \<Rightarrow> jsval \<Rightarrow> jsval promise" where
  "unsetCustomLocation env uuidOrId =
     setCustomLocation env uuidOrId (Obj [(''latitude'', Str []), (''longitude'', Str [])])"

definition startApplication :: "env \<Rightarrow> jsval \<Rightarrow> jsval promise" where
  "startApplication env uuidOrId =
     then_v (then_v
       (then_p
          (get env uuidOrId
             (Obj [(''$select'', Arr [Str ''id'', Str ''supervisor_version'']),
                   (''$expand'', Obj [(''belongs_to__application'', Obj [(''$select'', Str ''id'')])])]))
          (\<lambda>device.
             then_p
               (Promise_try
                  (and_then (js_prop device ''supervisor_version'') (\<lambda>version.
                   and_then (ensureSupervisorCompatibility env version MIN_SUPERVISOR_APPS_API) (\<lambda>_.
                   and_then (js_prop device ''belongs_to__application'') (\<lambda>apps.
                   and_then (js_index0 apps) (\<lambda>app.
                   and_then (js_prop app ''id'') (\<lambda>appId.
                   and_then (js_prop device ''id'') (\<lambda>deviceId.
                     Inr (Obj [(''method'', Str ''POST''),
                               (''url'', Str (''/supervisor/v1/apps/'' @ String appId @ ''/start'')),
                               (''baseUrl'', Str (apiUrl env)),
                               (''body'', Obj [(''deviceId'', deviceId), (''appId'', appId)]),
                               (''timeout'', Num CONTAINER_ACTION_ENDPOINT_TIMEOUT)])))))))))
               (backend (request_send env) RequestSend)))
       (\<lambda>response. js_prop response ''body''))
       (\<lambda>body. js_prop body ''containerId'')"

definition stopApplication :: "env \<Rightarrow> jsval \<Rightarrow> jsval promise" where
  "stopApplication env uuidOrId =
     then_v (then_v
       (then_p
          (get env uuidOrId
             (Obj [(''$select'', Arr [Str ''id'', Str ''supervisor_version'']),
                   (''$expand'', Obj [(''belongs_to__application'', Obj [(''$select'', Str ''id'')])])]))
          (\<lambda>device.
             then_p
               (Promise_try
                  (and_then (js_prop device ''supervisor_version'') (\<lambda>version.
                   and_then (ensureSupervisorCompatibility env version MIN_SUPERVISOR_APPS_API) (\<lambda>_.
                   and_then (js_prop device ''belongs_to__application'') (\<lambda>apps.
                   and_then (js_index0 apps) (\<lambda>app.
                   and_then (js_prop app ''id'') (\<lambda>appId.
                   and_then (js_prop device ''id'') (\<lambda>deviceId.
                     Inr (Obj [(''method'', Str ''POST''),
                               (''url'', Str (''/supervisor/v1/apps/'' @ String appId @ ''/stop'')),
                               (''baseUrl'', Str (apiUrl env)),
                               (''body'', Obj [(''deviceId'', deviceId), (''appId'', appId)]),
                               (''timeout'', Num CONTAINER_ACTION_ENDPOINT_TIMEOUT)])))))))))
               (backend (request_send env) RequestSend)))
       (\<lambda>response. js_prop response ''body''))
       (\<lambda>body. js_prop body ''containerId'')"

definition startService :: "env \<Rightarrow> jsval \<Rightarrow> jsval \<Rightarrow> jsval promise" where
  "startService env uuidOrId imageId =
     then_p
       (get env uuidOrId
          (Obj [(''$select'', Arr [Str ''id'', Str ''supervisor_version'']),
                (''$expand'', Obj [(''belongs_to__application'', Obj [(''$select'', Str ''id'')])])]))
       (\<lambda>device.
          then_p
            (Promise_try
               (and_then (js_prop device ''supervisor_version'') (\<lambda>version.
                and_then (ensureSupervisorCompatibility env version MIN_SUPERVISOR_MC_API) (\<lambda>_.
                and_then (js_prop device ''belongs_to__application'') (\<lambda>apps.
                and_then (js_index0 apps) (\<lambda>app.
                and_then (js_prop app ''id'') (\<lambda>appId.
                and_then (js_prop device ''id'') (\<lambda>deviceId.
                  Inr (Obj [(''method'', Str ''POST''),
                            (''url'', Str (''/supervisor/v2/applications/'' @ String appId
                                            @ ''/start-service'')),
                            (''baseUrl'', Str (apiUrl env)),
                            (''body'', Obj [(''deviceId'', deviceId), (''appId'', appId),
                                            (''data'', Obj [(''appId'', appId), (''imageId'', imageId)])]),
                            (''timeout'', Num CONTAINER_ACTION_ENDPOINT_TIMEOUT)])))))))))
            (backend (request_send env) RequestSend))"

definition stopService :: "env \<Rightarrow> jsval \<Rightarrow> jsval \<Rightarrow> jsval promise" where
  "stopService env uuidOrId imageId =
     then_p
       (get env uuidOrId
          (Obj [(''$select'', Arr [Str ''id'', Str ''supervisor_version'']),
                (''$expand'', Obj [(''belongs_to__application'', Obj [(''$select'', Str ''id'')])])]))
       (\<lambda>device.
          then_p
            (Promise_try
               (and_then (js_prop device ''supervisor_version'') (\<lambda>version.
                and_then (ensureSupervisorCompatibility env version MIN_SUPERVISOR_MC_API) (\<lambda>_.
                and_then (js_prop device ''belongs_to__application'') (\<lambda>apps.
                and_then (js_index0 apps) (\<lambda>app.
                and_then (js_prop app ''id'') (\<lambda>appId.
                and_then (js_prop device ''id'') (\<lambda>deviceId.
                  Inr (Obj [(''method'', Str ''POST''),
                            (''url'', Str (''/supervisor/v2/applications/'' @ String appId
                                            @ ''/stop-service'')),
                            (''baseUrl'', Str (apiUrl env)),
                            (''body'', Obj [(''deviceId'', deviceId), (''appId'', appId),
                                            (''data'', Obj [(''appId'', appId), (''imageId'', imageId)])]),
                            (''timeout'', Num CONTAINER_ACTION_ENDPOINT_TIMEOUT)])))))))))
            (backend (request_send env) RequestSend))"

definition restartService :: "env \<Rightarrow> jsval \<Rightarrow> jsval \<Rightarrow> jsval promise" where
  "restartService env uuidOrId imageId =
     then_p
       (get env uuidOrId
          (Obj [(''$select'', Arr [Str ''id'', Str ''supervisor_version'']),
                (''$expand'', Obj [(''belongs_to__application'', Obj [(''$select'', Str ''id'')])])]))
       (\<lambda>device.
          then_p
            (Promise_try
               (and_then (js_prop device ''supervisor_version'') (\<lambda>version.
                and_then (ensureSupervisorCompatibility env version MIN_SUPERVISOR_MC_API) (\<lambda>_.
                and_then (js_prop device ''belongs_to__application'') (\<lambda>apps.
                and_then (js_index0 apps) (\<lambda>app.
                and_then (js_prop app ''id'') (\<lambda>appId.
                and_then (js_prop device ''id'') (\<lambda>deviceId.
                  Inr (Obj [(''method'', Str ''POST''),
                            (''url'', Str (''/supervisor/v2/applications/'' @ String appId
                                            @ ''/restart-service'')),
                            (''baseUrl'', Str (apiUrl env)),
                            (''body'', Obj [(''deviceId'', deviceId), (''appId'', appId),
                                            (''data'', Obj [(''appId'', appId), (''imageId'', imageId)])]),
                            (''timeout'', Num CONTAINER_ACTION_ENDPOINT_TIMEOUT)])))))))))
            (backend (request_send env) RequestSend))"

definition reboot :: "env \<Rightarrow> jsval \<Rightarrow> jsval \<Rightarrow> jsval promise" where
  "reboot env uuidOrId options0 =
     (let options = (if is_nullish options0 then Obj [] else options0) in
      catch_if
        (then_v
           (then_p (getId env uuidOrId)
              (\<lambda>deviceId.
                 then_p
                   (Promise_try
                      (and_then (js_prop_opt options ''force'') (\<lambda>force.
                         Inr (Obj [(''method'', Str ''POST''),
                                   (''url'', Str ''/supervisor/v1/reboot''),
                                   (''baseUrl'', Str (apiUrl env)),
                                   (''body'', Obj [(''deviceId'', deviceId),
                                                   (''data'', Obj [(''force'', Bool (Boolean force))])])]))))
                   (\<lambda>req.
                      catch_p (backend (request_send env) RequestSend req)
                        (\<lambda>err. if statusCode err = Num (LOCKED_STATUS_CODE env)
                               then reject BalenaSupervisorLockedError
                               else reject err))))
           (\<lambda>response. js_prop response ''body''))
        (isNotFoundResponse env)
        (\<lambda>err. Promise_try (treatAsMissingDevice env uuidOrId err)))"






definition serviceVar_get :: "env \<Rightarrow> jsval \<Rightarrow> jsval \<Rightarrow> jsval \<Rightarrow> jsval promise" where
  "serviceVar_get env uuidOrId serviceId key =
     then_v (then_v
       (then_p
          (then_v (get env uuidOrId (Obj [(''$select'', Str ''id'')])) (\<lambda>device. js_prop device ''id''))
          (\<lambda>deviceId.
             backend (pine_get env) PineGet
               (Obj [(''resource'', Str ''device_service_environment_variable''),
                     (''options'',
                      Obj [(''$filter'',
                            Obj [(''service_install'',
                                  Obj [(''$any'',
                                        Obj [(''$alias'', Str ''si''),
                                             (''$expr'',
                                              Obj [(''si'',
                                                    Obj [(''device'', deviceId),
                                                         (''service'', serviceId)])])])]),
                                 (''name'', key)])])])))
       (\<lambda>rows. js_index0 (Arr rows)))
       (\<lambda>variable. js_prop_opt variable ''value'')"

section \<open>A backend to run the model on\<close>

text \<open>
  Two devices, \<open>kitchen\<close> (id 1, uuid \<^verbatim>\<open>abc123\<close>) and \<open>garage\<close> (id 2, uuid \<^verbatim>\<open>abd456\<close>), one
  service variable \<^verbatim>\<open>VAR\<close>, and a supervisor that reboots device 1, is locked on device 2,
  fails on device 4 and does not know the others. The helpers of \<^verbatim>\<open>../util\<close> that are
  parameters are given the behaviour their names announce.
\<close>

fun js_path :: "jsval \<Rightarrow> string list \<Rightarrow> jsval" where
  "js_path v [] = v"
| "js_path v (k # ks) = (case js_prop v k of Inl _ \<Rightarrow> Undefined | Inr w \<Rightarrow> js_path w ks)"

definition demo_kitchen :: jsval where
  "demo_kitchen =
     Obj [(''id'', Num 1), (''uuid'', Str ''abc123''), (''device_name'', Str ''kitchen''),
          (''is_online'', Bool True), (''supervisor_version'', Str ''1.0.0''),
          (''belongs_to__application'', Arr [Obj [(''id'', Num 7)]])]"

definition demo_garage :: jsval where
  "demo_garage =
     Obj [(''id'', Num 2), (''uuid'', Str ''abd456''), (''device_name'', Str ''garage''),
          (''is_online'', Bool False), (''supervisor_version'', Str ''7.1.0''),
          (''belongs_to__application'', Arr [Obj [(''id'', Num 7)]])]"

definition demo_pine_get_id :: "call list \<Rightarrow> jsval \<Rightarrow> ext_error + jsval" where
  "demo_pine_get_id t q =
     (case js_path q [''id''] of
        Num n \<Rightarrow> Inr (if n = 1 then demo_kitchen else if n = 2 then demo_garage else Undefined)
      | _ \<Rightarrow> Inr Undefined)"

definition demo_pine_get :: "call list \<Rightarrow> jsval \<Rightarrow> ext_error + jsval list" where
  "demo_pine_get t q =
     (if js_path q [''resource''] = Str ''device'' then
        (case js_path q [''options'', ''$filter'', ''uuid'', ''$startswith''] of
           Str s \<Rightarrow>
             Inr (filter (\<lambda>d. case js_path d [''uuid''] of Str u \<Rightarrow> prefix s u | _ \<Rightarrow> False)
                    [demo_kitchen, demo_garage])
         | _ \<Rightarrow> Inr [demo_kitchen, demo_garage])
      else if js_path q [''options'', ''$filter'', ''name''] = Str ''VAR'' then
        Inr [Obj [(''id'', Num 5), (''name'', Str ''VAR''), (''value'', Str ''override'')]]
      else Inr [])"

definition demo_request_send :: "call list \<Rightarrow> jsval \<Rightarrow> ext_error + jsval" where
  "demo_request_send t req =
     (if js_path req [''url''] = Str ''/supervisor/v1/reboot'' then
        (case js_path req [''body'', ''deviceId''] of
           Num n \<Rightarrow>
             if n = 1 then Inr (Obj [(''statusCode'', Num 200), (''body'', Str ''OK'')])
             else if n = 2 then Inl \<lparr>code = ''BalenaRequestError'', status = Num 423\<rparr>
             else if n = 4 then Inl \<lparr>code = ''BalenaRequestError'', status = Num 500\<rparr>
             else Inl \<lparr>code = ''BalenaRequestError'', status = Num 404\<rparr>
         | _ \<Rightarrow> Inl \<lparr>code = ''BalenaRequestError'', status = Num 404\<rparr>)
      else Inr (Obj [(''statusCode'', Num 200), (''body'', Obj [(''containerId'', Str ''c0ffee'')])]))"

text \<open>
  \<^verbatim>\<open>url.resolve\<close> of a base URL and a path that starts with a slash: the path replaces the
  path of the base.
\<close>

definition demo_url_resolve :: "string \<Rightarrow> string \<Rightarrow> string" where
  "demo_url_resolve base path =
     (let scheme = takeWhile (\<lambda>c. c \<noteq> CHR ''/'') base;
          rest = dropWhile (\<lambda>c. c \<noteq> CHR ''/'') base;
          host = takeWhile (\<lambda>c. c \<noteq> CHR ''/'') (drop 2 rest)
      in scheme @ take 2 rest @ host @ path)"

definition demo_semver_lt :: "jsval \<Rightarrow> string \<Rightarrow> error + bool" where
  "demo_semver_lt v m =
     (if v = Str ''1.0.0'' then Inr True
      else if v = Str ''7.1.0'' then Inr False
      else Inl TypeError)"

definition demo_env :: env where
  "demo_env =
     \<lparr>pine_get_id = demo_pine_get_id,
      pine_get = demo_pine_get,
      pine_patch = (\<lambda>t q. Inr (Str ''OK'')),
      pine_delete = (\<lambda>t q. Inr (Str ''OK'')),
      request_send = demo_request_send,
      apiUrl = ''https://api.balena-cloud.com'',
      dashboardUrl = None,
      mergeExpandOptions = (\<lambda>defaultExpand extraExpand. Inr extraExpand),
      normalizeDeviceOsVersion = (\<lambda>device. device),
      isNotFoundResponse =
        (\<lambda>e. case e of External x \<Rightarrow> code x = ''BalenaRequestError'' \<and> status x = Num 404
              | _ \<Rightarrow> False),
      treatAsMissingDevice = (\<lambda>uuidOrId e. Inl (BalenaDeviceNotFound uuidOrId)),
      LOCKED_STATUS_CODE = 423,
      semver_lt = demo_semver_lt,
      url_resolve = demo_url_resolve\<rparr>"

section \<open>What mergePineOptions does\<close>

lemma field_update: "field (AList.update k v kvs) k' = (if k' = k then v else field kvs k')"
  by (simp add: field_def update_conv')

lemma merge_options_other:
  "merge_options env d x ks r = Inr r' \<Longrightarrow> k \<notin> set ks \<Longrightarrow> field r' k = field r k"
proof (induction ks arbitrary: r)
  case Nil
  then show ?case by simp
next
  case (Cons a ks)
  from Cons.prems(1) obtain v w where
      v: "js_prop x a = Inr v"
    and w: "merged_option env d a v = Inr w"
    and rest: "merge_options env d x ks (AList.update a w r) = Inr r'"
    by (auto simp add: and_then_def split: sum.splits)
  from Cons.prems(2) have "k \<noteq> a" and "k \<notin> set ks"
    by auto
  with Cons.IH [OF rest] show ?case
    by (simp add: field_update)
qed

lemma merge_options_stored:
  "merge_options env d x ks r = Inr r' \<Longrightarrow> k \<in> set ks \<Longrightarrow>
   \<exists>value merged. js_prop x k = Inr value \<and> merged_option env d k value = Inr merged
      \<and> field r' k = merged"
proof (induction ks arbitrary: r)
  case Nil
  then show ?case by simp
next
  case (Cons a ks)
  from Cons.prems(1) obtain v w where
      v: "js_prop x a = Inr v"
    and w: "merged_option env d a v = Inr w"
    and rest: "merge_options env d x ks (AList.update a w r) = Inr r'"
    by (auto simp add: and_then_def split: sum.splits)
  show ?case
  proof (cases "k \<in> set ks")
    case True
    then show ?thesis
      by (rule Cons.IH [OF rest])
  next
    case False
    with Cons.prems(2) have "k = a"
      by simp
    moreover from merge_options_other [OF rest False]
    have "field r' k = field (AList.update a w r) k" .
    ultimately show ?thesis
      using v w by (simp add: field_update)
  qed
qed


lemma own_keys_truthy: "own_keys x \<noteq> [] \<Longrightarrow> Boolean x"
  by (cases x) auto

lemma mergePineOptions_none: "mergePineOptions env d (Obj []) = Inr (Obj d)"
  by (simp add: mergePineOptions_def and_then_def)

lemma mergePineOptions_stored:
  assumes m: "mergePineOptions env d x = Inr m"
    and k: "k \<in> set (own_keys x)"
  shows "\<exists>value merged. js_prop x k = Inr value \<and> merged_option env d k value = Inr merged
            \<and> js_prop m k = Inr merged"
proof -
  from k have "Boolean x"
    by (auto intro: own_keys_truthy)
  with m obtain r where r: "merge_options env d x (own_keys x) d = Inr r" and mr: "m = Obj r"
    by (auto simp add: mergePineOptions_def and_then_def split: sum.splits)
  from merge_options_stored [OF r k] show ?thesis
    by (auto simp add: mr field_def)
qed

lemma mergePineOptions_kept:
  assumes m: "mergePineOptions env d x = Inr m"
    and k: "k \<notin> set (own_keys x)"
  shows "js_prop m k = Inr (field d k)"
proof (cases "Boolean x")
  case False
  with m show ?thesis
    by (auto simp add: mergePineOptions_def field_def)
next
  case True
  with m obtain r where r: "merge_options env d x (own_keys x) d = Inr r" and mr: "m = Obj r"
    by (auto simp add: mergePineOptions_def and_then_def split: sum.splits)
  from merge_options_other [OF r k] show ?thesis
    by (simp add: mr field_def)
qed


lemma mergePineOptions_filter:
  assumes m: "mergePineOptions env [(''$filter'', F)] x = Inr merged"
    and F: "Boolean F"
  shows "js_prop merged ''$filter'' = Inr F
         \<or> (\<exists>f. js_prop x ''$filter'' = Inr f
                \<and> js_prop merged ''$filter'' = Inr (Obj [(''$and'', Arr [F, f])]))"
proof (cases "''$filter'' \<in> set (own_keys x)")
  case True
  from mergePineOptions_stored [OF m True] F show ?thesis
    by (auto simp add: merged_option_def field_def)
next
  case False
  from mergePineOptions_kept [OF m False] show ?thesis
    by (simp add: field_def)
qed


section \<open>What device.get does\<close>

lemma get_nullish:
  "is_nullish u \<Longrightarrow> get env u opts t = (Inl (BalenaDeviceNotFound u), t)"
  by (simp add: get_def then_p_def reject_def Let_def)

lemma get_by_id:
  "get env (Num n) opts t =
     (let q = Obj [(''resource'', Str ''device''), (''id'', Num n),
                   (''options'', if is_nullish opts then Obj [] else opts)] in
      (case pine_get_id env t q of
         Inl e \<Rightarrow> Inl (External e)
       | Inr device \<Rightarrow>
           if is_nullish device then Inl (BalenaDeviceNotFound (Num n))
           else Inr (addExtraInfo env device),
       t @ [PineGet q]))"
  by (auto simp add: get_def then_p_def then_v_def tap_def backend_def Promise_try_def
        resolve_def Let_def split: sum.splits)

lemma get_by_uuid:
  "\<not> is_nullish u \<Longrightarrow> \<not> isId u \<Longrightarrow>
   get env u opts t =
     (case mergePineOptions env [(''$filter'', Obj [(''uuid'', Obj [(''$startswith'', u)])])]
             (if is_nullish opts then Obj [] else opts) of
        Inl e \<Rightarrow> (Inl e, t)
      | Inr merged \<Rightarrow>
          (let q = Obj [(''resource'', Str ''device''), (''options'', merged)] in
           (case pine_get env t q of
              Inl e \<Rightarrow> Inl (External e)
            | Inr [] \<Rightarrow> Inl (BalenaDeviceNotFound u)
            | Inr [device] \<Rightarrow> Inr (addExtraInfo env device)
            | Inr (_ # _ # _) \<Rightarrow> Inl (BalenaAmbiguousDevice u),
            t @ [PineGet q])))"
  by (auto simp add: get_def then_p_def then_v_def tap_def backend_def Promise_try_def
        resolve_def Let_def split: sum.splits list.splits)

lemmas promise_defs =
  then_p_def then_v_def tap_def catch_p_def catch_if_def backend_def Promise_try_def
  resolve_def reject_def and_then_def

lemmas merge_defs = mergePineOptions_def merged_option_def field_def and_then_def

lemmas demo_defs =
  demo_env_def demo_pine_get_id_def demo_pine_get_def demo_request_send_def demo_url_resolve_def
  demo_semver_lt_def demo_kitchen_def demo_garage_def addExtraInfo_def

section \<open>Auxiliary facts\<close>

lemma then_p_run:
  "then_p p f t = (case p t of (Inl e, t1) \<Rightarrow> (Inl e, t1) | (Inr x, t1) \<Rightarrow> f x t1)"
  by (simp add: then_p_def)

lemma then_v_run:
  "then_v p f t = (case p t of (Inl e, t1) \<Rightarrow> (Inl e, t1) | (Inr x, t1) \<Rightarrow> (f x, t1))"
  by (simp add: then_v_def then_p_def Promise_try_def split: prod.splits sum.splits)

lemma backend_run:
  "backend answer kind q t =
     (case answer t q of Inl e \<Rightarrow> Inl (External e) | Inr x \<Rightarrow> Inr x, t @ [kind q])"
  by (simp add: backend_def)

lemma js_prop_opt_default:
  "js_prop_opt (if is_nullish v then Obj [] else v) k = js_prop_opt v k"
  by (simp add: js_prop_opt_def)

lemma js_prop_error: "js_prop v k = Inl e \<Longrightarrow> e = TypeError"
  by (cases v) (simp_all split: if_splits)

lemma gated_request:
  assumes F: "\<And>t. F t =
     W (then_p (get env u G)
       (\<lambda>device.
          then_p
            (Promise_try
               (and_then (js_prop device ''supervisor_version'') (\<lambda>version.
                and_then (ensureSupervisorCompatibility env version M) (\<lambda>_. K device))))
            (backend (request_send env) RequestSend))) t"
    and W: "\<And>(p :: jsval promise) t. snd (W p t) = snd (p t)"
           "\<And>(p :: jsval promise) t e t1. p t = (Inl e, t1) \<Longrightarrow> W p t = (Inl e, t1)"
  shows "(\<forall>device t1 version.
            get env u G t = (Inr device, t1)
            \<longrightarrow> js_prop device ''supervisor_version'' = Inr version
            \<longrightarrow> semver_lt env version M = Inr True
            \<longrightarrow> F t = (Inl (Error (''Incompatible supervisor version: '' @ String version
                                      @ '' - must be >= '' @ M)), t1))
       \<and> (snd (F t) = snd (get env u G t)
          \<or> (\<exists>device version req.
                fst (get env u G t) = Inr device
                \<and> js_prop device ''supervisor_version'' = Inr version
                \<and> semver_lt env version M = Inr False
                \<and> snd (F t) = snd (get env u G t) @ [RequestSend req]))"
proof -
  define I where "I =
     then_p (get env u G)
       (\<lambda>device.
          then_p
            (Promise_try
               (and_then (js_prop device ''supervisor_version'') (\<lambda>version.
                and_then (ensureSupervisorCompatibility env version M) (\<lambda>_. K device))))
            (backend (request_send env) RequestSend))"
  have FI: "F t = W I t"
    by (simp add: F I_def)
  obtain r t1 where g: "get env u G t = (r, t1)"
    by (cases "get env u G t")
  have inner: "(\<forall>device t1 version.
            get env u G t = (Inr device, t1)
            \<longrightarrow> js_prop device ''supervisor_version'' = Inr version
            \<longrightarrow> semver_lt env version M = Inr True
            \<longrightarrow> I t = (Inl (Error (''Incompatible supervisor version: '' @ String version
                                      @ '' - must be >= '' @ M)), t1))
       \<and> (snd (I t) = snd (get env u G t)
          \<or> (\<exists>device version req.
                fst (get env u G t) = Inr device
                \<and> js_prop device ''supervisor_version'' = Inr version
                \<and> semver_lt env version M = Inr False
                \<and> snd (I t) = snd (get env u G t) @ [RequestSend req]))"
  proof (cases r)
    case (Inl e)
    with g show ?thesis
      by (simp add: I_def then_p_def)
  next
    case (Inr device)
    with g show ?thesis
      by (auto simp add: I_def promise_defs ensureSupervisorCompatibility_def split: sum.splits)
  qed
  from inner show ?thesis
    unfolding FI W(1) using W(2) [of I t] by blast
qed

lemma body_containerId:
  "snd (then_v (then_v p f) h t) = snd (p t)"
  "p t = (Inl e, t1) \<Longrightarrow> then_v (then_v p f) h t = (Inl e, t1)"
  by (cases "p t"; auto simp add: then_v_def then_p_def Promise_try_def split: sum.splits)+

section \<open>The claims\<close>

text \<open>
  C1. \<^verbatim>\<open>device.get\<close> disambiguates the identifier. Given a numeric id it makes one
  \<^verbatim>\<open>pine.get\<close> on the resource \<^verbatim>\<open>device\<close> by that id, with the caller's options, and rejects
  with \<^verbatim>\<open>BalenaDeviceNotFound\<close> when no device comes back. Given a string it merges the
  filter \<^verbatim>\<open>uuid: { $startswith: string }\<close> with the caller's options and makes one
  \<^verbatim>\<open>pine.get\<close> with the result; it rejects with \<^verbatim>\<open>BalenaDeviceNotFound\<close> when no device
  matches, with \<^verbatim>\<open>BalenaAmbiguousDevice\<close> when more than one does, and resolves with the single
  matching device otherwise (passed through \<^verbatim>\<open>addExtraInfo\<close>, which normalises its OS
  version in place). The \<^verbatim>\<open>$filter\<close> of that query is the \<^verbatim>\<open>$startswith\<close> filter, alone or
  joined by \<^verbatim>\<open>$and\<close> to the caller's own \<^verbatim>\<open>$filter\<close>, and without options of the caller the
  options of the query are that filter exactly. A failure of the query itself is passed
  on; when \<^verbatim>\<open>mergePineOptions\<close> throws at the caller's options, \<^verbatim>\<open>get\<close> rejects with that
  error and makes no query.
\<close>

theorem get_disambiguates:
  "get env (Num n) opts t =
     (let q = Obj [(''resource'', Str ''device''), (''id'', Num n),
                   (''options'', if is_nullish opts then Obj [] else opts)] in
      (case pine_get_id env t q of
         Inl e \<Rightarrow> Inl (External e)
       | Inr device \<Rightarrow>
           if is_nullish device then Inl (BalenaDeviceNotFound (Num n))
           else Inr (addExtraInfo env device),
       t @ [PineGet q]))
   \<and> get env (Str s) opts t =
     (case mergePineOptions env [(''$filter'', Obj [(''uuid'', Obj [(''$startswith'', Str s)])])]
             (if is_nullish opts then Obj [] else opts) of
        Inl e \<Rightarrow> (Inl e, t)
      | Inr merged \<Rightarrow>
          (let q = Obj [(''resource'', Str ''device''), (''options'', merged)] in
           (case pine_get env t q of
              Inl e \<Rightarrow> Inl (External e)
            | Inr [] \<Rightarrow> Inl (BalenaDeviceNotFound (Str s))
            | Inr [device] \<Rightarrow> Inr (addExtraInfo env device)
            | Inr (_ # _ # _) \<Rightarrow> Inl (BalenaAmbiguousDevice (Str s)),
            t @ [PineGet q])))
   \<and> (\<forall>merged.
         mergePineOptions env [(''$filter'', Obj [(''uuid'', Obj [(''$startswith'', Str s)])])]
           (if is_nullish opts then Obj [] else opts) = Inr merged
         \<longrightarrow> js_prop merged ''$filter'' = Inr (Obj [(''uuid'', Obj [(''$startswith'', Str s)])])
             \<or> (\<exists>f. js_prop opts ''$filter'' = Inr f
                    \<and> js_prop merged ''$filter'' =
                        Inr (Obj [(''$and'', Arr [Obj [(''uuid'', Obj [(''$startswith'', Str s)])], f])])))
   \<and> (is_nullish opts \<or> opts = Obj []
        \<longrightarrow> mergePineOptions env [(''$filter'', Obj [(''uuid'', Obj [(''$startswith'', Str s)])])]
              (if is_nullish opts then Obj [] else opts)
             = Inr (Obj [(''$filter'', Obj [(''uuid'', Obj [(''$startswith'', Str s)])])]))"
proof (intro conjI allI impI)
  show "get env (Num n) opts t =
     (let q = Obj [(''resource'', Str ''device''), (''id'', Num n),
                   (''options'', if is_nullish opts then Obj [] else opts)] in
      (case pine_get_id env t q of
         Inl e \<Rightarrow> Inl (External e)
       | Inr device \<Rightarrow>
           if is_nullish device then Inl (BalenaDeviceNotFound (Num n))
           else Inr (addExtraInfo env device),
       t @ [PineGet q]))"
    by (rule get_by_id)
next
  show "get env (Str s) opts t =
     (case mergePineOptions env [(''$filter'', Obj [(''uuid'', Obj [(''$startswith'', Str s)])])]
             (if is_nullish opts then Obj [] else opts) of
        Inl e \<Rightarrow> (Inl e, t)
      | Inr merged \<Rightarrow>
          (let q = Obj [(''resource'', Str ''device''), (''options'', merged)] in
           (case pine_get env t q of
              Inl e \<Rightarrow> Inl (External e)
            | Inr [] \<Rightarrow> Inl (BalenaDeviceNotFound (Str s))
            | Inr [device] \<Rightarrow> Inr (addExtraInfo env device)
            | Inr (_ # _ # _) \<Rightarrow> Inl (BalenaAmbiguousDevice (Str s)),
            t @ [PineGet q])))"
    by (rule get_by_uuid) simp_all
next
  fix merged
  assume m: "mergePineOptions env [(''$filter'', Obj [(''uuid'', Obj [(''$startswith'', Str s)])])]
           (if is_nullish opts then Obj [] else opts) = Inr merged"
  show "js_prop merged ''$filter'' = Inr (Obj [(''uuid'', Obj [(''$startswith'', Str s)])])
             \<or> (\<exists>f. js_prop opts ''$filter'' = Inr f
                    \<and> js_prop merged ''$filter'' =
                        Inr (Obj [(''$and'', Arr [Obj [(''uuid'', Obj [(''$startswith'', Str s)])], f])]))"
  proof (cases "is_nullish opts")
    case True
    with m have "merged = Obj [(''$filter'', Obj [(''uuid'', Obj [(''$startswith'', Str s)])])]"
      by (simp add: mergePineOptions_none)
    then show ?thesis
      by simp
  next
    case False
    with m have "mergePineOptions env
        [(''$filter'', Obj [(''uuid'', Obj [(''$startswith'', Str s)])])] opts = Inr merged"
      by simp
    then show ?thesis
      by (rule mergePineOptions_filter) simp
  qed
next
  assume "is_nullish opts \<or> opts = Obj []"
  then have "(if is_nullish opts then Obj [] else opts) = Obj []"
    by auto
  then show "mergePineOptions env [(''$filter'', Obj [(''uuid'', Obj [(''$startswith'', Str s)])])]
              (if is_nullish opts then Obj [] else opts)
             = Inr (Obj [(''$filter'', Obj [(''uuid'', Obj [(''$startswith'', Str s)])])])"
    by (simp add: mergePineOptions_none)
qed

theorem get_disambiguates_witness:
  "get demo_env (Num 3) Undefined [] =
     (Inl (BalenaDeviceNotFound (Num 3)),
      [PineGet (Obj [(''resource'', Str ''device''), (''id'', Num 3), (''options'', Obj [])])])
   \<and> get demo_env (Str ''ab'') Undefined [] =
     (Inl (BalenaAmbiguousDevice (Str ''ab'')),
      [PineGet (Obj [(''resource'', Str ''device''),
                     (''options'', Obj [(''$filter'', Obj [(''uuid'', Obj [(''$startswith'', Str ''ab'')])])])])])
   \<and> get demo_env (Str ''abc'') (Obj [(''$select'', Str ''id'')]) [] =
     (Inr demo_kitchen,
      [PineGet (Obj [(''resource'', Str ''device''),
                     (''options'', Obj [(''$filter'', Obj [(''uuid'', Obj [(''$startswith'', Str ''abc'')])]),
                                        (''$select'', Arr [Str ''id''])])])])
   \<and> get demo_env (Str ''x'') Undefined [] =
     (Inl (BalenaDeviceNotFound (Str ''x'')),
      [PineGet (Obj [(''resource'', Str ''device''),
                     (''options'', Obj [(''$filter'', Obj [(''uuid'', Obj [(''$startswith'', Str ''x'')])])])])])
   \<and> get demo_env (Str ''abc'') (Obj [(''$foo'', Num 1)]) [] =
     (Inl (Error ''Unknown pine option: $foo''), [])"
  using get_disambiguates [of demo_env 3 Undefined "[]" "''ab''"]
        get_disambiguates [of demo_env 3 "Obj [(''$select'', Str ''id'')]" "[]" "''abc''"]
        get_disambiguates [of demo_env 3 Undefined "[]" "''x''"]
        get_disambiguates [of demo_env 3 "Obj [(''$foo'', Num 1)]" "[]" "''abc''"]
  by (simp add: demo_defs merge_defs Let_def)




text \<open>
  C3, as the code has it. Once \<^verbatim>\<open>getId\<close> has resolved \<^verbatim>\<open>uuidOrId\<close> to \<^verbatim>\<open>deviceId\<close>,
  \<^verbatim>\<open>device.reboot\<close> makes exactly one \<^verbatim>\<open>request.send\<close>: a POST to \<^verbatim>\<open>/supervisor/v1/reboot\<close>
  with the body \<^verbatim>\<open>{ deviceId, data: { force } }\<close>, where \<^verbatim>\<open>force\<close> is \<^verbatim>\<open>Boolean(options.force)\<close>.
  When that request fails with the locked status code, \<^verbatim>\<open>reboot\<close> rejects with
  \<^verbatim>\<open>BalenaSupervisorLockedError\<close>, and (as long as the not-found handler never raises that
  error itself) it rejects with it in no other case. Any other error of the request is
  re-thrown unchanged unless \<^verbatim>\<open>isNotFoundResponse\<close> holds of it: then the outcome is that of
  \<^verbatim>\<open>treatAsMissingDevice(uuidOrId)\<close>.
\<close>

theorem reboot_request:
  "getId env uuidOrId t = (Inr deviceId, t1) \<Longrightarrow>
   js_prop_opt opts ''force'' = Inr force \<Longrightarrow>
   (let req = Obj [(''method'', Str ''POST''),
                   (''url'', Str ''/supervisor/v1/reboot''),
                   (''baseUrl'', Str (apiUrl env)),
                   (''body'', Obj [(''deviceId'', deviceId),
                                   (''data'', Obj [(''force'', Bool (Boolean force))])])] in
    snd (reboot env uuidOrId opts t) = t1 @ [RequestSend req]
    \<and> (\<forall>x. request_send env t1 req = Inl x \<longrightarrow>
          (status x = Num (LOCKED_STATUS_CODE env)
             \<longrightarrow> \<not> isNotFoundResponse env BalenaSupervisorLockedError
             \<longrightarrow> fst (reboot env uuidOrId opts t) = Inl BalenaSupervisorLockedError)
        \<and> (status x \<noteq> Num (LOCKED_STATUS_CODE env)
             \<longrightarrow> \<not> isNotFoundResponse env (External x)
             \<longrightarrow> fst (reboot env uuidOrId opts t) = Inl (External x))
        \<and> (status x \<noteq> Num (LOCKED_STATUS_CODE env)
             \<longrightarrow> isNotFoundResponse env (External x)
             \<longrightarrow> fst (reboot env uuidOrId opts t)
                   = treatAsMissingDevice env uuidOrId (External x)))
    \<and> ((\<forall>e. isNotFoundResponse env e
              \<longrightarrow> treatAsMissingDevice env uuidOrId e \<noteq> Inl BalenaSupervisorLockedError)
         \<longrightarrow> fst (reboot env uuidOrId opts t) = Inl BalenaSupervisorLockedError
         \<longrightarrow> (\<exists>x. request_send env t1 req = Inl x \<and> status x = Num (LOCKED_STATUS_CODE env))))"
proof -
  assume g: "getId env uuidOrId t = (Inr deviceId, t1)"
    and f: "js_prop_opt opts ''force'' = Inr force"
  have f': "js_prop_opt (if is_nullish opts then Obj [] else opts) ''force'' = Inr force"
    using f by (simp add: js_prop_opt_default)
  show ?thesis
    unfolding Let_def reboot_def
    by (cases "request_send env t1 (Obj [(''method'', Str ''POST''),
                   (''url'', Str ''/supervisor/v1/reboot''),
                   (''baseUrl'', Str (apiUrl env)),
                   (''body'', Obj [(''deviceId'', deviceId),
                                   (''data'', Obj [(''force'', Bool (Boolean force))])])])")
       (auto simp add: g f' promise_defs split: sum.splits error.splits dest: js_prop_error)
qed

theorem reboot_request_witness:
  "reboot demo_env (Str ''abd'') (Obj [(''force'', Num 1)]) [] =
     (Inl BalenaSupervisorLockedError,
      [PineGet (Obj [(''resource'', Str ''device''),
                     (''options'', Obj [(''$filter'', Obj [(''uuid'', Obj [(''$startswith'', Str ''abd'')])]),
                                        (''$select'', Arr [Str ''id''])])]),
       RequestSend (Obj [(''method'', Str ''POST''),
                         (''url'', Str ''/supervisor/v1/reboot''),
                         (''baseUrl'', Str ''https://api.balena-cloud.com''),
                         (''body'', Obj [(''deviceId'', Num 2),
                                         (''data'', Obj [(''force'', Bool True)])])])])
   \<and> reboot demo_env (Num 4) Undefined [] =
     (Inl (External \<lparr>code = ''BalenaRequestError'', status = Num 500\<rparr>),
      [RequestSend (Obj [(''method'', Str ''POST''),
                         (''url'', Str ''/supervisor/v1/reboot''),
                         (''baseUrl'', Str ''https://api.balena-cloud.com''),
                         (''body'', Obj [(''deviceId'', Num 4),
                                         (''data'', Obj [(''force'', Bool False)])])])])"
proof -
  have g2: "getId demo_env (Str ''abd'') [] =
      (Inr (Num 2),
       [PineGet (Obj [(''resource'', Str ''device''),
                      (''options'', Obj [(''$filter'', Obj [(''uuid'', Obj [(''$startswith'', Str ''abd'')])]),
                                         (''$select'', Arr [Str ''id''])])])])"
    by (simp add: getId_def get_by_uuid demo_defs merge_defs Let_def then_v_def then_p_def Promise_try_def)
  have g4: "getId demo_env (Num 4) [] = (Inr (Num 4), [])"
    by (simp add: getId_def resolve_def)
  have f2: "js_prop_opt (Obj [(''force'', Num 1)]) ''force'' = Inr (Num 1)"
    by (simp add: js_prop_opt_def)
  have f4: "js_prop_opt Undefined ''force'' = Inr Undefined"
    by (simp add: js_prop_opt_def)
  have e: "apiUrl demo_env = ''https://api.balena-cloud.com''"
    "LOCKED_STATUS_CODE demo_env = 423"
    "request_send demo_env = demo_request_send"
    "\<not> isNotFoundResponse demo_env BalenaSupervisorLockedError"
    "\<not> isNotFoundResponse demo_env (External \<lparr>code = ''BalenaRequestError'', status = Num 500\<rparr>)"
    by (simp_all add: demo_env_def)
  have a: "reboot demo_env (Str ''abd'') (Obj [(''force'', Num 1)]) [] =
     (Inl BalenaSupervisorLockedError,
      [PineGet (Obj [(''resource'', Str ''device''),
                     (''options'', Obj [(''$filter'', Obj [(''uuid'', Obj [(''$startswith'', Str ''abd'')])]),
                                        (''$select'', Arr [Str ''id''])])]),
       RequestSend (Obj [(''method'', Str ''POST''),
                         (''url'', Str ''/supervisor/v1/reboot''),
                         (''baseUrl'', Str ''https://api.balena-cloud.com''),
                         (''body'', Obj [(''deviceId'', Num 2),
                                         (''data'', Obj [(''force'', Bool True)])])])])"
    using reboot_request [OF g2 f2] e
    by (simp add: Let_def demo_request_send_def prod_eq_iff)
  have b: "reboot demo_env (Num 4) Undefined [] =
     (Inl (External \<lparr>code = ''BalenaRequestError'', status = Num 500\<rparr>),
      [RequestSend (Obj [(''method'', Str ''POST''),
                         (''url'', Str ''/supervisor/v1/reboot''),
                         (''baseUrl'', Str ''https://api.balena-cloud.com''),
                         (''body'', Obj [(''deviceId'', Num 4),
                                         (''data'', Obj [(''force'', Bool False)])])])])"
    using reboot_request [OF g4 f4] e
    by (simp add: Let_def demo_request_send_def prod_eq_iff)
  show ?thesis
    by (rule conjI [OF a b])
qed

text \<open>
  On the backend of the previous section the supervisor answers the reboot of device 3 with
  a 404, which is not the locked status code: \<^verbatim>\<open>reboot\<close> does not re-throw that error
  unchanged, it rejects with \<^verbatim>\<open>BalenaDeviceNotFound\<close>.
\<close>

theorem reboot_not_found_replaced:
  "request_send demo_env []
     (Obj [(''method'', Str ''POST''),
           (''url'', Str ''/supervisor/v1/reboot''),
           (''baseUrl'', Str ''https://api.balena-cloud.com''),
           (''body'', Obj [(''deviceId'', Num 3), (''data'', Obj [(''force'', Bool False)])])])
     = Inl \<lparr>code = ''BalenaRequestError'', status = Num 404\<rparr>
   \<and> Num 404 \<noteq> Num (LOCKED_STATUS_CODE demo_env)
   \<and> reboot demo_env (Num 3) Undefined [] =
       (Inl (BalenaDeviceNotFound (Num 3)),
        [RequestSend
           (Obj [(''method'', Str ''POST''),
                 (''url'', Str ''/supervisor/v1/reboot''),
                 (''baseUrl'', Str ''https://api.balena-cloud.com''),
                 (''body'', Obj [(''deviceId'', Num 3), (''data'', Obj [(''force'', Bool False)])])])])
   \<and> fst (reboot demo_env (Num 3) Undefined [])
       \<noteq> Inl (External \<lparr>code = ''BalenaRequestError'', status = Num 404\<rparr>)"
  by (simp add: reboot_def getId_def promise_defs js_prop_opt_def demo_env_def
        demo_request_send_def Let_def)

text \<open>
  C4. For \<^verbatim>\<open>startApplication\<close> and \<^verbatim>\<open>stopApplication\<close> with the minimum version
  \<^verbatim>\<open>1.8.0-alpha.0\<close>, and for \<^verbatim>\<open>startService\<close>, \<^verbatim>\<open>stopService\<close> and \<^verbatim>\<open>restartService\<close> with
  the minimum version \<^verbatim>\<open>7.0.0\<close>: when the \<^verbatim>\<open>supervisor_version\<close> of the device found is
  \<^verbatim>\<open>semver.lt\<close> the minimum, the method rejects with the error
  \<^verbatim>\<open>Incompatible supervisor version: <version> - must be >= <minimum>\<close> and makes no call
  beyond those of \<^verbatim>\<open>device.get\<close>; and the method makes a call beyond those of
  \<^verbatim>\<open>device.get\<close>, which is then one \<^verbatim>\<open>request.send\<close>, only when \<^verbatim>\<open>semver.lt\<close> has answered
  that the version is not below the minimum.
\<close>

theorem supervisor_compatibility:
  "\<forall>(F, minVersion) \<in> set
      [(startApplication env uuidOrId, MIN_SUPERVISOR_APPS_API),
       (stopApplication env uuidOrId, MIN_SUPERVISOR_APPS_API),
       (startService env uuidOrId imageId, MIN_SUPERVISOR_MC_API),
       (stopService env uuidOrId imageId, MIN_SUPERVISOR_MC_API),
       (restartService env uuidOrId imageId, MIN_SUPERVISOR_MC_API)].
     (let found = get env uuidOrId
            (Obj [(''$select'', Arr [Str ''id'', Str ''supervisor_version'']),
                  (''$expand'', Obj [(''belongs_to__application'', Obj [(''$select'', Str ''id'')])])]) t
      in
        (\<forall>device t1 version.
            found = (Inr device, t1)
            \<longrightarrow> js_prop device ''supervisor_version'' = Inr version
            \<longrightarrow> semver_lt env version minVersion = Inr True
            \<longrightarrow> F t = (Inl (Error (''Incompatible supervisor version: '' @ String version
                                      @ '' - must be >= '' @ minVersion)), t1))
       \<and> (snd (F t) = snd found
          \<or> (\<exists>device version req.
                fst found = Inr device
                \<and> js_prop device ''supervisor_version'' = Inr version
                \<and> semver_lt env version minVersion = Inr False
                \<and> snd (F t) = snd found @ [RequestSend req])))"
proof -
  let ?G = "Obj [(''$select'', Arr [Str ''id'', Str ''supervisor_version'']),
                 (''$expand'', Obj [(''belongs_to__application'', Obj [(''$select'', Str ''id'')])])]"
  let ?P = "\<lambda>F minVersion.
        (\<forall>device t1 version.
            get env uuidOrId ?G t = (Inr device, t1)
            \<longrightarrow> js_prop device ''supervisor_version'' = Inr version
            \<longrightarrow> semver_lt env version minVersion = Inr True
            \<longrightarrow> F t = (Inl (Error (''Incompatible supervisor version: '' @ String version
                                      @ '' - must be >= '' @ minVersion)), t1))
       \<and> (snd (F t) = snd (get env uuidOrId ?G t)
          \<or> (\<exists>device version req.
                fst (get env uuidOrId ?G t) = Inr device
                \<and> js_prop device ''supervisor_version'' = Inr version
                \<and> semver_lt env version minVersion = Inr False
                \<and> snd (F t) = snd (get env uuidOrId ?G t) @ [RequestSend req]))"
  note app = gated_request [where W = "\<lambda>p. then_v (then_v p (\<lambda>response. js_prop response ''body''))
                                          (\<lambda>body. js_prop body ''containerId'')",
                            OF _ body_containerId]
  note svc = gated_request [where W = "\<lambda>p. p", OF _ refl]
  have a: "?P (startApplication env uuidOrId) MIN_SUPERVISOR_APPS_API"
    by (rule app) (simp only: startApplication_def)
  have b: "?P (stopApplication env uuidOrId) MIN_SUPERVISOR_APPS_API"
    by (rule app) (simp only: stopApplication_def)
  have c: "?P (startService env uuidOrId imageId) MIN_SUPERVISOR_MC_API"
    by (rule svc) (simp only: startService_def)
  have d: "?P (stopService env uuidOrId imageId) MIN_SUPERVISOR_MC_API"
    by (rule svc) (simp only: stopService_def)
  have e: "?P (restartService env uuidOrId imageId) MIN_SUPERVISOR_MC_API"
    by (rule svc) (simp only: restartService_def)
  show ?thesis
    unfolding list.set ball_simps Let_def prod.case
    by (intro conjI ballI a b c d e) simp
qed

theorem supervisor_compatibility_witness:
  "startApplication demo_env (Num 1) [] =
     (Inl (Error ''Incompatible supervisor version: 1.0.0 - must be >= 1.8.0-alpha.0''),
      [PineGet (Obj [(''resource'', Str ''device''), (''id'', Num 1),
                     (''options'',
                      Obj [(''$select'', Arr [Str ''id'', Str ''supervisor_version'']),
                           (''$expand'', Obj [(''belongs_to__application'', Obj [(''$select'', Str ''id'')])])])])])
   \<and> restartService demo_env (Num 1) (Num 9) [] =
     (Inl (Error ''Incompatible supervisor version: 1.0.0 - must be >= 7.0.0''),
      [PineGet (Obj [(''resource'', Str ''device''), (''id'', Num 1),
                     (''options'',
                      Obj [(''$select'', Arr [Str ''id'', Str ''supervisor_version'']),
                           (''$expand'', Obj [(''belongs_to__application'', Obj [(''$select'', Str ''id'')])])])])])"
proof -
  let ?G = "Obj [(''$select'', Arr [Str ''id'', Str ''supervisor_version'']),
                 (''$expand'', Obj [(''belongs_to__application'', Obj [(''$select'', Str ''id'')])])]"
  have g: "get demo_env (Num 1) ?G [] =
      (Inr demo_kitchen,
       [PineGet (Obj [(''resource'', Str ''device''), (''id'', Num 1), (''options'', ?G)])])"
    by (simp add: get_by_id demo_defs Let_def)
  have v: "js_prop demo_kitchen ''supervisor_version'' = Inr (Str ''1.0.0'')"
    by (simp add: demo_kitchen_def)
  have lt: "semver_lt demo_env (Str ''1.0.0'') m = Inr True" for m
    by (simp add: demo_env_def demo_semver_lt_def)
  note inst = supervisor_compatibility [of demo_env "Num 1" "Num 9" "[]", unfolded Let_def]
  have a: "startApplication demo_env (Num 1) [] =
     (Inl (Error (''Incompatible supervisor version: '' @ String (Str ''1.0.0'')
                    @ '' - must be >= '' @ MIN_SUPERVISOR_APPS_API)),
      [PineGet (Obj [(''resource'', Str ''device''), (''id'', Num 1), (''options'', ?G)])])"
    using inst [THEN bspec, of "(startApplication demo_env (Num 1), MIN_SUPERVISOR_APPS_API)"]
      g v lt
    by simp
  have b: "restartService demo_env (Num 1) (Num 9) [] =
     (Inl (Error (''Incompatible supervisor version: '' @ String (Str ''1.0.0'')
                    @ '' - must be >= '' @ MIN_SUPERVISOR_MC_API)),
      [PineGet (Obj [(''resource'', Str ''device''), (''id'', Num 1), (''options'', ?G)])])"
    using inst [THEN bspec, of "(restartService demo_env (Num 1) (Num 9), MIN_SUPERVISOR_MC_API)"]
      g v lt
    by simp
  show ?thesis
    using a b by (simp add: MIN_SUPERVISOR_APPS_API_def MIN_SUPERVISOR_MC_API_def)
qed

text \<open>
  C5. \<^verbatim>\<open>device.getDashboardUrl\<close> throws the error
  \<^verbatim>\<open>The uuid option should be a non empty string\<close> when \<^verbatim>\<open>uuid\<close> is not a string or is the
  empty string, and otherwise returns \<^verbatim>\<open>url.resolve\<close> of the dashboard URL and the path
  \<^verbatim>\<open>/devices/<uuid>/summary\<close>.
\<close>

theorem getDashboardUrl_checks:
  "getDashboardUrl env uuid =
     (case uuid of
        Str s \<Rightarrow>
          if s = [] then Inl (Error ''The uuid option should be a non empty string'')
          else Inr (url_resolve env (the_dashboardUrl env) (''/devices/'' @ s @ ''/summary''))
      | _ \<Rightarrow> Inl (Error ''The uuid option should be a non empty string''))"
proof (cases "typeof uuid = ''string''")
  case True
  then obtain s where s: "uuid = Str s"
    by (cases uuid) simp_all
  show ?thesis
    by (simp add: s getDashboardUrl_def)
next
  case False
  then show ?thesis
    by (cases uuid) (simp_all add: getDashboardUrl_def)
qed

theorem getDashboardUrl_checks_witness:
  "getDashboardUrl demo_env (Str ''abc123'')
     = Inr ''https://dashboard.balena-cloud.com/devices/abc123/summary''
   \<and> getDashboardUrl demo_env (Str []) = Inl (Error ''The uuid option should be a non empty string'')
   \<and> getDashboardUrl demo_env (Num 7) = Inl (Error ''The uuid option should be a non empty string'')"
  using getDashboardUrl_checks [of demo_env "Str ''abc123''"]
    getDashboardUrl_checks [of demo_env "Str []"] getDashboardUrl_checks [of demo_env "Num 7"]
  by (simp add: demo_env_def demo_url_resolve_def the_dashboardUrl_def)

text \<open>
  C6. Once \<^verbatim>\<open>device.get\<close> has found the parent device, \<^verbatim>\<open>serviceVar.get\<close> makes one
  \<^verbatim>\<open>pine.get\<close> on \<^verbatim>\<open>device_service_environment_variable\<close>, filtered by the id of that device,
  the given service id and the variable name. It resolves with \<^verbatim>\<open>undefined\<close> when no record
  comes back and with the \<^verbatim>\<open>value\<close> of the record when one does.
\<close>

theorem serviceVar_get_scoped:
  "get env uuidOrId (Obj [(''$select'', Str ''id'')]) t = (Inr device, t1) \<Longrightarrow>
   js_prop device ''id'' = Inr deviceId \<Longrightarrow>
   (let q = Obj [(''resource'', Str ''device_service_environment_variable''),
                 (''options'',
                  Obj [(''$filter'',
                        Obj [(''service_install'',
                              Obj [(''$any'',
                                    Obj [(''$alias'', Str ''si''),
                                         (''$expr'',
                                          Obj [(''si'',
                                                Obj [(''device'', deviceId),
                                                     (''service'', serviceId)])])])]),
                             (''name'', key)])])] in
    snd (serviceVar_get env uuidOrId serviceId key t) = t1 @ [PineGet q]
    \<and> (pine_get env t1 q = Inr []
         \<longrightarrow> fst (serviceVar_get env uuidOrId serviceId key t) = Inr Undefined)
    \<and> (\<forall>fields. pine_get env t1 q = Inr [Obj fields]
         \<longrightarrow> fst (serviceVar_get env uuidOrId serviceId key t) =
              Inr (case map_of fields ''value'' of None \<Rightarrow> Undefined | Some v \<Rightarrow> v)))"
proof -
  assume found: "get env uuidOrId (Obj [(''$select'', Str ''id'')]) t = (Inr device, t1)"
    and id: "js_prop device ''id'' = Inr deviceId"
  let ?q = "Obj [(''resource'', Str ''device_service_environment_variable''),
                 (''options'',
                  Obj [(''$filter'',
                        Obj [(''service_install'',
                              Obj [(''$any'',
                                    Obj [(''$alias'', Str ''si''),
                                         (''$expr'',
                                          Obj [(''si'',
                                                Obj [(''device'', deviceId),
                                                     (''service'', serviceId)])])])]),
                             (''name'', key)])])]"
  let ?rows = "then_p
      (then_v (get env uuidOrId (Obj [(''$select'', Str ''id'')])) (\<lambda>device. js_prop device ''id''))
      (\<lambda>deviceId. backend (pine_get env) PineGet
          (Obj [(''resource'', Str ''device_service_environment_variable''),
                 (''options'',
                  Obj [(''$filter'',
                        Obj [(''service_install'',
                              Obj [(''$any'',
                                    Obj [(''$alias'', Str ''si''),
                                         (''$expr'',
                                          Obj [(''si'',
                                                Obj [(''device'', deviceId),
                                                     (''service'', serviceId)])])])]),
                             (''name'', key)])])]))"
  have parent: "then_v (get env uuidOrId (Obj [(''$select'', Str ''id'')]))
                  (\<lambda>device. js_prop device ''id'') t = (Inr deviceId, t1)"
    by (simp add: then_v_run found id)
  have rows: "?rows t =
      (case pine_get env t1 ?q of Inl e \<Rightarrow> Inl (External e) | Inr x \<Rightarrow> Inr x, t1 @ [PineGet ?q])"
    by (simp add: then_p_run parent backend_run)
  have whole: "serviceVar_get env uuidOrId serviceId key =
      then_v (then_v ?rows (\<lambda>rows. js_index0 (Arr rows)))
        (\<lambda>variable. js_prop_opt variable ''value'')"
    by (simp add: serviceVar_get_def)
  have calls: "snd (serviceVar_get env uuidOrId serviceId key t) = t1 @ [PineGet ?q]"
    unfolding whole using rows
    by (cases "pine_get env t1 ?q") (simp_all add: then_v_run)
  have none: "fst (serviceVar_get env uuidOrId serviceId key t) = Inr Undefined"
    if "pine_get env t1 ?q = Inr []"
    unfolding whole using rows that
    by (simp add: then_v_run js_prop_opt_def)
  have one: "fst (serviceVar_get env uuidOrId serviceId key t) =
              Inr (case map_of fields ''value'' of None \<Rightarrow> Undefined | Some v \<Rightarrow> v)"
    if "pine_get env t1 ?q = Inr [Obj fields]" for fields
    unfolding whole using rows that
    by (simp add: then_v_run js_prop_opt_def)
  show ?thesis
    unfolding Let_def using calls none one by blast
qed

theorem serviceVar_get_scoped_witness:
  "serviceVar_get demo_env (Num 1) (Num 3) (Str ''VAR'') [] =
     (Inr (Str ''override''),
      [PineGet (Obj [(''resource'', Str ''device''), (''id'', Num 1),
                     (''options'', Obj [(''$select'', Str ''id'')])]),
       PineGet (Obj [(''resource'', Str ''device_service_environment_variable''),
                 (''options'',
                  Obj [(''$filter'',
                        Obj [(''service_install'',
                              Obj [(''$any'',
                                    Obj [(''$alias'', Str ''si''),
                                         (''$expr'',
                                          Obj [(''si'',
                                                Obj [(''device'', Num 1),
                                                     (''service'', Num 3)])])])]),
                             (''name'', Str ''VAR'')])])])])
   \<and> fst (serviceVar_get demo_env (Num 1) (Num 3) (Str ''OTHER'') []) = Inr Undefined"
proof -
  have g: "get demo_env (Num 1) (Obj [(''$select'', Str ''id'')]) [] =
      (Inr demo_kitchen,
       [PineGet (Obj [(''resource'', Str ''device''), (''id'', Num 1),
                      (''options'', Obj [(''$select'', Str ''id'')])])])"
    by (simp add: get_by_id demo_defs Let_def)
  have i: "js_prop demo_kitchen ''id'' = Inr (Num 1)"
    by (simp add: demo_kitchen_def)
  show ?thesis
    using serviceVar_get_scoped [OF g i, of "Num 3" "Str ''VAR''"]
      serviceVar_get_scoped [OF g i, of "Num 3" "Str ''OTHER''"]
    by (simp add: Let_def demo_env_def demo_pine_get_def prod_eq_iff)
qed




text \<open>
  C8. \<^verbatim>\<open>device.has\<close> resolves with \<^verbatim>\<open>false\<close> exactly when \<^verbatim>\<open>device.get\<close> (asked for the
  \<^verbatim>\<open>id\<close> only) rejects with \<^verbatim>\<open>BalenaDeviceNotFound\<close>, resolves with \<^verbatim>\<open>true\<close> exactly when
  \<^verbatim>\<open>device.get\<close> resolves, and rejects with the error of \<^verbatim>\<open>device.get\<close>, unchanged, when
  that is any other error, \<^verbatim>\<open>BalenaAmbiguousDevice\<close> among them. It makes the calls of
  \<^verbatim>\<open>device.get\<close> and no other.
\<close>

theorem has_device:
  "(fst (has env uuidOrId t) = Inr (Bool False)
      \<longleftrightarrow> (\<exists>v. fst (get env uuidOrId (Obj [(''$select'', Arr [Str ''id''])]) t)
                 = Inl (BalenaDeviceNotFound v)))
   \<and> (fst (has env uuidOrId t) = Inr (Bool True)
      \<longleftrightarrow> (\<exists>device. fst (get env uuidOrId (Obj [(''$select'', Arr [Str ''id''])]) t)
                 = Inr device))
   \<and> (\<forall>e. fst (get env uuidOrId (Obj [(''$select'', Arr [Str ''id''])]) t) = Inl e
          \<longrightarrow> (\<forall>v. e \<noteq> BalenaDeviceNotFound v)
          \<longrightarrow> fst (has env uuidOrId t) = Inl e)
   \<and> snd (has env uuidOrId t) = snd (get env uuidOrId (Obj [(''$select'', Arr [Str ''id''])]) t)"
proof -
  obtain r t' where g: "get env uuidOrId (Obj [(''$select'', Arr [Str ''id''])]) t = (r, t')"
    by (cases "get env uuidOrId (Obj [(''$select'', Arr [Str ''id''])]) t")
  show ?thesis
  proof (cases r)
    case (Inl e)
    with g show ?thesis
      by (cases e) (simp_all add: has_def promise_defs)
  next
    case (Inr device)
    with g show ?thesis
      by (simp add: has_def promise_defs)
  qed
qed

theorem has_device_witness:
  "fst (has demo_env (Str ''x'') []) = Inr (Bool False)
   \<and> fst (has demo_env (Num 2) []) = Inr (Bool True)
   \<and> fst (get demo_env (Str ''ab'') (Obj [(''$select'', Arr [Str ''id''])]) [])
       = Inl (BalenaAmbiguousDevice (Str ''ab''))
   \<and> fst (has demo_env (Str ''ab'') []) = Inl (BalenaAmbiguousDevice (Str ''ab''))"
proof -
  have x: "fst (get demo_env (Str ''x'') (Obj [(''$select'', Arr [Str ''id''])]) [])
             = Inl (BalenaDeviceNotFound (Str ''x''))"
    by (simp add: get_by_uuid demo_defs merge_defs Let_def)
  have k: "fst (get demo_env (Num 2) (Obj [(''$select'', Arr [Str ''id''])]) []) = Inr demo_garage"
    by (simp add: get_by_id demo_defs Let_def)
  have ab: "fst (get demo_env (Str ''ab'') (Obj [(''$select'', Arr [Str ''id''])]) [])
             = Inl (BalenaAmbiguousDevice (Str ''ab''))"
    by (simp add: get_by_uuid demo_defs merge_defs Let_def)
  show ?thesis
    using has_device [of demo_env "Str ''x''" "[]"] has_device [of demo_env "Num 2" "[]"]
      has_device [of demo_env "Str ''ab''" "[]"] x k ab
    by simp
qed

text \<open>
  C9. \<^verbatim>\<open>device.unsetCustomLocation\<close> is \<^verbatim>\<open>device.setCustomLocation\<close> at the location
  \<^verbatim>\<open>{ latitude: '', longitude: '' }\<close>. Once \<^verbatim>\<open>device.get\<close> has found the device, it makes
  one \<^verbatim>\<open>pine.patch\<close> on the devices with the uuid of that device, whose body is
  \<^verbatim>\<open>custom_latitude\<close> and \<^verbatim>\<open>custom_longitude\<close>, both the empty string, and nothing else; and
  the body of the patch of \<^verbatim>\<open>setCustomLocation\<close> has these two fields only, at any location.
\<close>

theorem unsetCustomLocation_patch:
  "unsetCustomLocation env uuidOrId t
     = setCustomLocation env uuidOrId (Obj [(''latitude'', Str []), (''longitude'', Str [])]) t
   \<and> (\<forall>device t1 uuid.
         get env uuidOrId (Obj [(''$select'', Str ''uuid'')]) t = (Inr device, t1)
         \<longrightarrow> js_prop device ''uuid'' = Inr uuid
         \<longrightarrow> (let q = Obj [(''resource'', Str ''device''),
                           (''body'', Obj [(''custom_latitude'', Str []),
                                           (''custom_longitude'', Str [])]),
                           (''options'', Obj [(''$filter'', Obj [(''uuid'', uuid)])])] in
              unsetCustomLocation env uuidOrId t =
                (case pine_patch env t1 q of Inl e \<Rightarrow> Inl (External e) | Inr r \<Rightarrow> Inr r,
                 t1 @ [PinePatch q])))
   \<and> (\<forall>device t1 uuid location latitude longitude.
         get env uuidOrId (Obj [(''$select'', Str ''uuid'')]) t = (Inr device, t1)
         \<longrightarrow> js_prop device ''uuid'' = Inr uuid
         \<longrightarrow> js_prop location ''latitude'' = Inr latitude
         \<longrightarrow> js_prop location ''longitude'' = Inr longitude
         \<longrightarrow> snd (setCustomLocation env uuidOrId location t) =
               t1 @ [PinePatch
                       (Obj [(''resource'', Str ''device''),
                             (''body'', Obj [(''custom_latitude'', Str (String latitude)),
                                             (''custom_longitude'', Str (String longitude))]),
                             (''options'', Obj [(''$filter'', Obj [(''uuid'', uuid)])])])])"
proof -
  have patch: "setCustomLocation env uuidOrId location t =
      (case pine_patch env t1 q of Inl e \<Rightarrow> Inl (External e) | Inr r \<Rightarrow> Inr r, t1 @ [PinePatch q])"
    if found: "get env uuidOrId (Obj [(''$select'', Str ''uuid'')]) t = (Inr device, t1)"
      and uuid: "js_prop device ''uuid'' = Inr uuid"
      and lat: "js_prop location ''latitude'' = Inr latitude"
      and lon: "js_prop location ''longitude'' = Inr longitude"
      and q: "q = Obj [(''resource'', Str ''device''),
                       (''body'', Obj [(''custom_latitude'', Str (String latitude)),
                                       (''custom_longitude'', Str (String longitude))]),
                       (''options'', Obj [(''$filter'', Obj [(''uuid'', uuid)])])]"
    for device t1 uuid location latitude longitude q
    unfolding setCustomLocation_def
    by (simp add: then_p_run found uuid lat lon q and_then_def Promise_try_def backend_run)
  have same: "unsetCustomLocation env uuidOrId t
     = setCustomLocation env uuidOrId (Obj [(''latitude'', Str []), (''longitude'', Str [])]) t"
    by (simp add: unsetCustomLocation_def)
  have cleared: "\<forall>device t1 uuid.
         get env uuidOrId (Obj [(''$select'', Str ''uuid'')]) t = (Inr device, t1)
         \<longrightarrow> js_prop device ''uuid'' = Inr uuid
         \<longrightarrow> (let q = Obj [(''resource'', Str ''device''),
                           (''body'', Obj [(''custom_latitude'', Str []),
                                           (''custom_longitude'', Str [])]),
                           (''options'', Obj [(''$filter'', Obj [(''uuid'', uuid)])])] in
              unsetCustomLocation env uuidOrId t =
                (case pine_patch env t1 q of Inl e \<Rightarrow> Inl (External e) | Inr r \<Rightarrow> Inr r,
                 t1 @ [PinePatch q]))"
    unfolding Let_def same
    by (intro allI impI, rule patch [where latitude = "Str []" and longitude = "Str []"])
       simp_all
  have only_two: "\<forall>device t1 uuid location latitude longitude.
         get env uuidOrId (Obj [(''$select'', Str ''uuid'')]) t = (Inr device, t1)
         \<longrightarrow> js_prop device ''uuid'' = Inr uuid
         \<longrightarrow> js_prop location ''latitude'' = Inr latitude
         \<longrightarrow> js_prop location ''longitude'' = Inr longitude
         \<longrightarrow> snd (setCustomLocation env uuidOrId location t) =
               t1 @ [PinePatch
                       (Obj [(''resource'', Str ''device''),
                             (''body'', Obj [(''custom_latitude'', Str (String latitude)),
                                             (''custom_longitude'', Str (String longitude))]),
                             (''options'', Obj [(''$filter'', Obj [(''uuid'', uuid)])])])]"
    by (intro allI impI) (simp add: patch)
  show ?thesis
    by (intro conjI same cleared only_two)
qed

theorem unsetCustomLocation_patch_witness:
  "unsetCustomLocation demo_env (Str ''abd'') []
     = setCustomLocation demo_env (Str ''abd'') (Obj [(''latitude'', Str []), (''longitude'', Str [])]) []
   \<and> unsetCustomLocation demo_env (Str ''abd'') [] =
       (Inr (Str ''OK''),
        [PineGet (Obj [(''resource'', Str ''device''),
                       (''options'', Obj [(''$filter'', Obj [(''uuid'', Obj [(''$startswith'', Str ''abd'')])]),
                                          (''$select'', Arr [Str ''uuid''])])]),
         PinePatch (Obj [(''resource'', Str ''device''),
                         (''body'', Obj [(''custom_latitude'', Str []),
                                         (''custom_longitude'', Str [])]),
                         (''options'', Obj [(''$filter'', Obj [(''uuid'', Str ''abd456'')])])])])
   \<and> snd (setCustomLocation demo_env (Str ''abd'')
                  (Obj [(''latitude'', Num 123), (''longitude'', Num (- 456))]) []) =
        [PineGet (Obj [(''resource'', Str ''device''),
                       (''options'', Obj [(''$filter'', Obj [(''uuid'', Obj [(''$startswith'', Str ''abd'')])]),
                                          (''$select'', Arr [Str ''uuid''])])]),
         PinePatch (Obj [(''resource'', Str ''device''),
                         (''body'', Obj [(''custom_latitude'', Str ''123''),
                                         (''custom_longitude'', Str ''-456'')]),
                         (''options'', Obj [(''$filter'', Obj [(''uuid'', Str ''abd456'')])])])]"
proof -
  have g: "get demo_env (Str ''abd'') (Obj [(''$select'', Str ''uuid'')]) [] =
      (Inr demo_garage,
       [PineGet (Obj [(''resource'', Str ''device''),
                      (''options'', Obj [(''$filter'', Obj [(''uuid'', Obj [(''$startswith'', Str ''abd'')])]),
                                         (''$select'', Arr [Str ''uuid''])])])])"
    by (simp add: get_by_uuid demo_defs merge_defs Let_def)
  have u: "js_prop demo_garage ''uuid'' = Inr (Str ''abd456'')"
    by (simp add: demo_garage_def)
  have p: "pine_patch demo_env t1 q = Inr (Str ''OK'')" for t1 q
    by (simp add: demo_env_def)
  note inst = unsetCustomLocation_patch [of demo_env "Str ''abd''" "[]"]
  have a: "unsetCustomLocation demo_env (Str ''abd'') []
     = setCustomLocation demo_env (Str ''abd'') (Obj [(''latitude'', Str []), (''longitude'', Str [])]) []"
    using inst [THEN conjunct1] .
  have b: "unsetCustomLocation demo_env (Str ''abd'') [] =
       (Inr (Str ''OK''),
        [PineGet (Obj [(''resource'', Str ''device''),
                       (''options'', Obj [(''$filter'', Obj [(''uuid'', Obj [(''$startswith'', Str ''abd'')])]),
                                          (''$select'', Arr [Str ''uuid''])])]),
         PinePatch (Obj [(''resource'', Str ''device''),
                         (''body'', Obj [(''custom_latitude'', Str []),
                                         (''custom_longitude'', Str [])]),
                         (''options'', Obj [(''$filter'', Obj [(''uuid'', Str ''abd456'')])])])])"
    using inst [THEN conjunct2, THEN conjunct1, rule_format, OF g u]
    by (simp add: Let_def p)
  have l: "js_prop (Obj [(''latitude'', Num 123), (''longitude'', Num (- 456))]) ''latitude'' = Inr (Num 123)"
    "js_prop (Obj [(''latitude'', Num 123), (''longitude'', Num (- 456))]) ''longitude'' = Inr (Num (- 456))"
    by simp_all
  have c: "snd (setCustomLocation demo_env (Str ''abd'')
                  (Obj [(''latitude'', Num 123), (''longitude'', Num (- 456))]) []) =
        [PineGet (Obj [(''resource'', Str ''device''),
                       (''options'', Obj [(''$filter'', Obj [(''uuid'', Obj [(''$startswith'', Str ''abd'')])]),
                                          (''$select'', Arr [Str ''uuid''])])]),
         PinePatch (Obj [(''resource'', Str ''device''),
                         (''body'', Obj [(''custom_latitude'', Str ''123''),
                                         (''custom_longitude'', Str ''-456'')]),
                         (''options'', Obj [(''$filter'', Obj [(''uuid'', Str ''abd456'')])])])]"
    using inst [THEN conjunct2, THEN conjunct2, rule_format, OF g u l]
    by (simp add: string_of_int_def string_of_nat.simps)
  show ?thesis
    by (intro conjI a b c)
qed

text \<open>
  C10, as the code has it. On an identifier that is \<^verbatim>\<open>null\<close> or \<^verbatim>\<open>undefined\<close>,
  \<^verbatim>\<open>device.get\<close> rejects with \<^verbatim>\<open>BalenaDeviceNotFound\<close> and makes no call on the backend, and
  so do the methods that pass its rejection on: \<^verbatim>\<open>getName\<close>, \<^verbatim>\<open>isOnline\<close>, \<^verbatim>\<open>rename\<close> and
  \<^verbatim>\<open>remove\<close>. \<^verbatim>\<open>device.has\<close> catches that rejection: it resolves with \<^verbatim>\<open>false\<close>, with no
  call on the backend either.
\<close>

theorem null_identifier:
  "is_nullish uuidOrId \<Longrightarrow>
     get env uuidOrId opts t = (Inl (BalenaDeviceNotFound uuidOrId), t)
   \<and> getName env uuidOrId t = (Inl (BalenaDeviceNotFound uuidOrId), t)
   \<and> isOnline env uuidOrId t = (Inl (BalenaDeviceNotFound uuidOrId), t)
   \<and> rename env uuidOrId newName t = (Inl (BalenaDeviceNotFound uuidOrId), t)
   \<and> remove env uuidOrId t = (Inl (BalenaDeviceNotFound uuidOrId), t)
   \<and> has env uuidOrId t = (Inr (Bool False), t)"
proof -
  assume absent: "is_nullish uuidOrId"
  have g: "get env uuidOrId options t = (Inl (BalenaDeviceNotFound uuidOrId), t)" for options
    by (rule get_nullish [OF absent])
  have name: "getName env uuidOrId t = (Inl (BalenaDeviceNotFound uuidOrId), t)"
    unfolding getName_def by (simp add: then_v_run g)
  have online: "isOnline env uuidOrId t = (Inl (BalenaDeviceNotFound uuidOrId), t)"
    unfolding isOnline_def by (simp add: then_v_run g)
  have renamed: "rename env uuidOrId newName t = (Inl (BalenaDeviceNotFound uuidOrId), t)"
    unfolding rename_def by (simp add: then_p_run g)
  have removed: "remove env uuidOrId t = (Inl (BalenaDeviceNotFound uuidOrId), t)"
    unfolding remove_def by (simp add: then_p_run g)
  have "then_v (get env uuidOrId (Obj [(''$select'', Arr [Str ''id''])])) (\<lambda>_. Inr (Bool True)) t
          = (Inl (BalenaDeviceNotFound uuidOrId), t)"
    by (simp add: then_v_run g)
  then have exists: "has env uuidOrId t = (Inr (Bool False), t)"
    by (simp add: has_def catch_p_def resolve_def)
  show ?thesis
    by (intro conjI g name online renamed removed exists)
qed

theorem null_identifier_witness:
  "is_nullish Undefined
   \<and> get demo_env Undefined Undefined [] = (Inl (BalenaDeviceNotFound Undefined), [])
   \<and> remove demo_env Undefined [] = (Inl (BalenaDeviceNotFound Undefined), [])
   \<and> has demo_env Undefined [] = (Inr (Bool False), [])"
  using null_identifier [of Undefined demo_env Undefined "[]" Undefined] by simp

text \<open>
  \<^verbatim>\<open>device.has\<close> finds its device through \<^verbatim>\<open>device.get\<close>, and on \<^verbatim>\<open>null\<close> it does not
  reject: it resolves with \<^verbatim>\<open>false\<close>.
\<close>

theorem has_null_resolves_false:
  "has demo_env Null [] = (Inr (Bool False), [])
   \<and> fst (has demo_env Null []) \<noteq> Inl (BalenaDeviceNotFound Null)"
  by (simp add: has_def get_nullish promise_defs)

end
